theory Spec2Isabelle
  imports Complex_Main
begin

section \<open>Numbers and strings of the host language\<close>

text \<open>
  Strings are lists of 8-bit characters. Numbers that the program only ever
  obtains from runs of decimal digits are natural numbers; differences of
  instants are integers; a value that the program would hold as NaN is
  \<open>None\<close>, and every comparison with it is false.
\<close>

definition isDigit :: "char \<Rightarrow> bool" where
  "isDigit c = (c \<in> set ''0123456789'')"

definition digitValue :: "char \<Rightarrow> nat" where
  "digitValue c =
     (case map_of (zip ''0123456789'' [0, 1, 2, 3, 4, 5, 6, 7, 8, 9]) c of
        Some d \<Rightarrow> d
      | None \<Rightarrow> 0)"

text \<open>The value of a run of decimal digits, most significant digit first.\<close>

definition digitsValue :: "string \<Rightarrow> nat" where
  "digitsValue ds = foldl (\<lambda>acc c. 10 * acc + digitValue c) 0 ds"

text \<open>
  \<open>Number(s)\<close> on the pieces of a time string. Only the forms the program itself
  writes into the \<open>time\<close> field are given a value: the empty string is 0 and a run
  of decimal digits is its value. Every other string is NaN here.
\<close>

definition Number :: "string \<Rightarrow> nat option" where
  "Number s = (if list_all isDigit s then Some (digitsValue s) else None)"

text \<open>\<open>s.split(':')\<close>: the pieces between the colons, at least one piece.\<close>

fun split_colon :: "string \<Rightarrow> string list" where
  "split_colon [] = [[]]"
| "split_colon (c # cs) =
     (if c = CHR '':'' then [] # split_colon cs
      else (case split_colon cs of
              [] \<Rightarrow> [[c]]
            | p # ps \<Rightarrow> (c # p) # ps))"

text \<open>\<open>String(n)\<close> for a natural number, and for an integer.\<close>

definition digitChar :: "nat \<Rightarrow> char" where
  "digitChar d = ''0123456789'' ! d"

function natToString :: "nat \<Rightarrow> string" where
  "natToString n =
     (if n < 10 then [digitChar n] else natToString (n div 10) @ [digitChar (n mod 10)])"
  by pat_completeness auto
termination
  by (relation "measure (\<lambda>n. n)") auto

declare natToString.simps [simp del]

definition intToString :: "int \<Rightarrow> string" where
  "intToString i = (if i < 0 then CHR ''-'' # natToString (nat (- i)) else natToString (nat i))"

section \<open>The reminder clock (\<open>checkSchedules\<close> in \<open>pages/Index.tsx\<close>)\<close>

text \<open>
  A schedule item. The three optional fields of the interface are options:
  \<open>None\<close> is \<open>undefined\<close>.
\<close>

record ScheduleItem =
  item_id :: string
  title :: string
  time :: string
  description :: "string option"
  reminderMinutes :: "int option"
  reminded :: "bool option"
  notified :: "bool option"

text \<open>Truthiness of an optional boolean: \<open>!x\<close> is \<open>\<not> truthy x\<close>.\<close>

definition truthy :: "bool option \<Rightarrow> bool" where
  "truthy b = (b = Some True)"

text \<open>
  What one tick does for an item it fires on: a toast and a spoken message. The two
  always come together, so one event stands for the pair; it carries the item as it was
  read and, for the advance reminder, the number of minutes announced.
\<close>

datatype notice = AdvanceNotice ScheduleItem int | ExactNotice ScheduleItem

text \<open>The text handed to \<open>speak\<close> for each event.\<close>

fun message :: "notice \<Rightarrow> string" where
  "message (AdvanceNotice schedule timeDiffMinutes) =
     ''Reminder: '' @ title schedule @ '' is coming up in '' @ intToString timeDiffMinutes
       @ '' minute'' @ (if timeDiffMinutes \<noteq> 1 then ''s'' else '''') @ ''.''"
| "message (ExactNotice schedule) =
     ''It's time for: '' @ title schedule @ ''. ''
       @ (case description schedule of None \<Rightarrow> '''' | Some d \<Rightarrow> d)"

text \<open>
  An instant is counted in milliseconds from local midnight of the current day (a day
  without a clock change). \<open>scheduleDate\<close> is today's date with the hours and minutes
  of the item and zero seconds and milliseconds; \<open>setHours\<close> carries hours and minutes
  beyond 23 and 59 over, so the instant is linear in both. A time string with fewer
  than two pieces, or with a piece that is not a number, gives an invalid date (NaN).
\<close>

definition scheduleDate :: "ScheduleItem \<Rightarrow> int option" where
  "scheduleDate schedule =
     (case map Number (split_colon (time schedule)) of
        Some scheduleHours # Some scheduleMinutes # _ \<Rightarrow>
          Some (int scheduleHours * 3600000 + int scheduleMinutes * 60000)
      | _ \<Rightarrow> None)"

definition timeDiffMinutes :: "int \<Rightarrow> ScheduleItem \<Rightarrow> int option" where
  "timeDiffMinutes now schedule =
     (case scheduleDate schedule of
        None \<Rightarrow> None
      | Some t \<Rightarrow> Some ((t - now) div (1000 * 60)))"

text \<open>\<open>schedule.reminderMinutes || 10\<close>: an absent or zero lead is replaced by 10.\<close>

definition leadMinutes :: "ScheduleItem \<Rightarrow> int" where
  "leadMinutes schedule =
     (case reminderMinutes schedule of
        None \<Rightarrow> 10
      | Some r \<Rightarrow> if r = 0 then 10 else r)"

text \<open>
  The body of the \<open>map\<close> callback: the event fired for the item, if any, and the item
  that the callback returns.
\<close>

definition checkSchedule :: "int \<Rightarrow> ScheduleItem \<Rightarrow> notice option \<times> ScheduleItem" where
  "checkSchedule now schedule =
     (case timeDiffMinutes now schedule of
        None \<Rightarrow> (None, schedule)
      | Some d \<Rightarrow>
          if \<not> truthy (reminded schedule) \<and> d > 0 \<and> d \<le> leadMinutes schedule
          then (Some (AdvanceNotice schedule d), schedule\<lparr>reminded := Some True\<rparr>)
          else if \<not> truthy (notified schedule) \<and> d \<le> 0 \<and> d > - 2
          then (Some (ExactNotice schedule), schedule\<lparr>notified := Some True\<rparr>)
          else (None, schedule))"

text \<open>
  One tick over the whole collection: the events in item order, and the collection
  held afterwards (replaced only when \<open>hasUpdates\<close> was set, which happens exactly in
  the two firing branches).
\<close>

definition checkSchedules :: "int \<Rightarrow> ScheduleItem list \<Rightarrow> notice list \<times> ScheduleItem list" where
  "checkSchedules now schedules =
     (let results = map (checkSchedule now) schedules;
          fired = List.map_filter fst results;
          updatedSchedules = map snd results;
          hasUpdates = list_ex (\<lambda>r. fst r \<noteq> None) results
      in (fired, if hasUpdates then updatedSchedules else schedules))"

text \<open>
  Repeated ticks: the collections held before the first tick and after each tick of
  the given sequence of instants.
\<close>

fun ticks :: "int list \<Rightarrow> ScheduleItem list \<Rightarrow> ScheduleItem list list" where
  "ticks [] schedules = [schedules]"
| "ticks (now # nows) schedules = schedules # ticks nows (snd (checkSchedules now schedules))"

text \<open>The number of places where a sequence of flag values goes from one value to another.\<close>

fun flips :: "bool \<Rightarrow> bool \<Rightarrow> bool list \<Rightarrow> nat" where
  "flips a b (x # y # zs) = (if x = a \<and> y = b then 1 else 0) + flips a b (y # zs)"
| "flips a b _ = 0"

section \<open>The route announcer (\<open>checkAndAnnounceDirection\<close> in the navigation page)\<close>

text \<open>
  Coordinates are pairs (longitude, latitude) in degrees. The floating-point numbers of
  the program are taken as real numbers, so rounding errors of the trigonometric
  functions are not part of the model.
\<close>

type_synonym coord = "real \<times> real"

text \<open>\<open>Math.atan2(y, x)\<close> over the reals.\<close>

definition atan2 :: "real \<Rightarrow> real \<Rightarrow> real" where
  "atan2 y x =
     (if x > 0 then arctan (y / x)
      else if x < 0 then (if y \<ge> 0 then arctan (y / x) + pi else arctan (y / x) - pi)
      else if y > 0 then pi / 2
      else if y < 0 then - (pi / 2)
      else 0)"

text \<open>
  The haversine distance in meters. \<open>Math.sqrt\<close> of a negative number is NaN, which
  makes the whole result NaN: that is \<open>None\<close>.
\<close>

definition getDistanceBetweenPoints :: "coord \<Rightarrow> coord \<Rightarrow> real option" where
  "getDistanceBetweenPoints coord1 coord2 =
     (let R = 6371000;
          lat1 = (snd coord1 * pi) / 180;
          lat2 = (snd coord2 * pi) / 180;
          deltaLat = ((snd coord2 - snd coord1) * pi) / 180;
          deltaLon = ((fst coord2 - fst coord1) * pi) / 180;
          a = sin (deltaLat / 2) * sin (deltaLat / 2) +
              cos lat1 * cos lat2 * sin (deltaLon / 2) * sin (deltaLon / 2);
          c = 2 * atan2 (sqrt a) (sqrt (1 - a))
      in if a < 0 \<or> 1 - a < 0 then None else Some (R * c))"

record RouteStep =
  instruction :: string
  distance :: real
  location :: coord
  announced :: bool

text \<open>The four pieces of component state that the announcer reads or writes.\<close>

record NavState =
  routeSteps :: "RouteStep list"
  currentStepIndex :: nat
  isNavigating :: bool
  voiceEnabled :: bool

text \<open>
  What the announcer asks of its surroundings. \<open>Speak i text\<close> is a call of
  \<open>speak(text)\<close>; \<open>i\<close> records the index of the route step whose instruction
  the text was built from. \<open>Arrive\<close> is the body of the arrival callback: the arrival
  message, \<open>setIsNavigating(false)\<close> and the arrival toast. An effect happens at once
  or is handed to \<open>setTimeout\<close> with a delay in milliseconds.
\<close>

datatype action = Speak nat string | Arrive

datatype effect = Now action | After nat action

text \<open>The step an effect speaks about, if it speaks about one.\<close>

fun actionStep :: "action \<Rightarrow> nat option" where
  "actionStep (Speak i text) = Some i"
| "actionStep Arrive = None"

fun effectStep :: "effect \<Rightarrow> nat option" where
  "effectStep (Now a) = actionStep a"
| "effectStep (After ms a) = actionStep a"

text \<open>The effect on the component state of running an action.\<close>

fun runAction :: "action \<Rightarrow> NavState \<Rightarrow> NavState" where
  "runAction (Speak i text) s = s"
| "runAction Arrive s = s\<lparr>isNavigating := False\<rparr>"

text \<open>
  \<open>Math.round(x)\<close>, printed in decimal digits as a template string does for an
  integer below \<open>10\<^sup>2\<^sup>1\<close>; the distances printed here are not negative.
\<close>

definition roundToString :: "real \<Rightarrow> string" where
  "roundToString x = intToString (\<lfloor>x + 1 / 2\<rfloor>)"

text \<open>
  \<open>prev.map((step, idx) => idx === currentStepIndex ? {...step, announced: true} : step)\<close>
\<close>

definition markAnnounced :: "nat \<Rightarrow> RouteStep list \<Rightarrow> RouteStep list" where
  "markAnnounced i prev =
     map (\<lambda>(idx, step). if idx = i then step\<lparr>announced := True\<rparr> else step)
       (zip [0..<length prev] prev)"

text \<open>
  One position update, handled on the state left by the previous one: the new state
  and the effects in program order.
\<close>

definition checkAndAnnounceDirection :: "NavState \<Rightarrow> coord \<Rightarrow> NavState \<times> effect list" where
  "checkAndAnnounceDirection s currentLocation =
     (if \<not> isNavigating s \<or> length (routeSteps s) = 0 \<or> \<not> voiceEnabled s then (s, [])
      else if \<not> currentStepIndex s < length (routeSteps s) then (s, [])
      else
        let currentStep = routeSteps s ! currentStepIndex s in
        if announced currentStep then (s, [])
        else
          (case getDistanceBetweenPoints currentLocation (location currentStep) of
             None \<Rightarrow> (s, [])
           | Some distanceToNextTurn \<Rightarrow>
               if distanceToNextTurn < 30 then
                 let s1 = s\<lparr>routeSteps := markAnnounced (currentStepIndex s) (routeSteps s)\<rparr> in
                 if int (currentStepIndex s) < int (length (routeSteps s)) - 1 then
                   let nextStep = routeSteps s ! (currentStepIndex s + 1);
                       distanceText =
                         (if distance nextStep > 100
                          then ''In '' @ roundToString (distance nextStep) @ '' meters''
                          else ''Shortly'')
                   in (s1\<lparr>currentStepIndex := currentStepIndex s + 1\<rparr>,
                       [Now (Speak (currentStepIndex s) (instruction currentStep)),
                        After 3000 (Speak (currentStepIndex s + 1)
                          (distanceText @ '', '' @ instruction nextStep))])
                 else
                   (s1,
                    [Now (Speak (currentStepIndex s) (instruction currentStep)),
                     After 2000 Arrive])
               else if distanceToNextTurn < 50 \<and> \<not> announced currentStep then
                 (s,
                  [Now (Speak (currentStepIndex s)
                     (''In '' @ roundToString distanceToNextTurn @ '' meters, ''
                        @ instruction currentStep))])
               else (s, [])))"

section \<open>The transcript parser (\<open>parseAndAddSchedule\<close> in \<open>pages/Index.tsx\<close>)\<close>

subsection \<open>Regular expressions as the program uses them\<close>

text \<open>
  The white space of \<open>\s\<close> and of \<open>trim\<close> among the 8-bit characters: tab, line feed,
  vertical tab, form feed, carriage return, space and no-break space.
\<close>

definition isSpace :: "char \<Rightarrow> bool" where
  "isSpace c = (c \<in> set [CHR 0x09, CHR 0x0A, CHR 0x0B, CHR 0x0C, CHR 0x0D, CHR 0x20, CHR 0xA0])"

text \<open>
  \<open>toUpperCase\<close> and \<open>toLowerCase\<close> on one character, for the letters a to z; other
  characters are left alone. A letter of a pattern matches a character of the input
  when both have the same upper case.
\<close>

definition toUpperChar :: "char \<Rightarrow> char" where
  "toUpperChar c =
     (case map_of (zip ''abcdefghijklmnopqrstuvwxyz'' ''ABCDEFGHIJKLMNOPQRSTUVWXYZ'') c of
        Some u \<Rightarrow> u
      | None \<Rightarrow> c)"

definition toLowerChar :: "char \<Rightarrow> char" where
  "toLowerChar c =
     (case map_of (zip ''ABCDEFGHIJKLMNOPQRSTUVWXYZ'' ''abcdefghijklmnopqrstuvwxyz'') c of
        Some l \<Rightarrow> l
      | None \<Rightarrow> c)"

text \<open>
  The fragment of the pattern language that the parser's patterns are written in, all
  of them with the flag \<open>i\<close>: literal text compared without regard to case, a greedy
  bounded or unbounded repetition of \<open>\d\<close> or \<open>\s\<close>, sequence, ordered alternative,
  greedy option, and numbered capturing group. A group \<open>(?:...)\<close> only brackets.
\<close>

datatype cls = Digit | Space

fun inClass :: "cls \<Rightarrow> char \<Rightarrow> bool" where
  "inClass Digit c = isDigit c"
| "inClass Space c = isSpace c"

datatype regex =
    Lit string
  | Rep cls nat "nat option"
  | Seq regex regex
  | Alt regex regex
  | Opt regex
  | Group nat regex

type_synonym captures = "(nat \<times> string) list"

text \<open>
  Matching anchored at the start of the input, as a backtracking matcher explores it:
  every way the pattern can match, as the rest of the input after the match and the
  groups captured, in the order in which backtracking tries them. The head of the list
  is the match found. A repetition tries the longest run first; an option tries its
  body first, and an iteration that consumes nothing is not taken.
\<close>

fun matchAt :: "regex \<Rightarrow> string \<Rightarrow> captures \<Rightarrow> (string \<times> captures) list" where
  "matchAt (Lit l) s c =
     (if length l \<le> length s \<and> map toUpperChar (take (length l) s) = map toUpperChar l
      then [(drop (length l) s, c)] else [])"
| "matchAt (Rep k lo hi) s c =
     (let n = length (takeWhile (inClass k) s);
          m = (case hi of None \<Rightarrow> n | Some h \<Rightarrow> min h n)
      in map (\<lambda>j. (drop j s, c)) (rev [lo..<Suc m]))"
| "matchAt (Seq r1 r2) s c = concat (map (\<lambda>(s', c'). matchAt r2 s' c') (matchAt r1 s c))"
| "matchAt (Alt r1 r2) s c = matchAt r1 s c @ matchAt r2 s c"
| "matchAt (Opt r) s c = filter (\<lambda>(s', c'). length s' < length s) (matchAt r s c) @ [(s, c)]"
| "matchAt (Group g r) s c =
     map (\<lambda>(s', c'). (s', (g, take (length s - length s') s) # c')) (matchAt r s c)"

text \<open>
  \<open>str.match(pattern)\<close> without the flag \<open>g\<close>: the match at the leftmost position
  where there is one; of the result only the groups are kept.
\<close>

fun search :: "regex \<Rightarrow> string \<Rightarrow> captures option" where
  "search r [] = (case matchAt r [] [] of [] \<Rightarrow> None | (rest, c) # _ \<Rightarrow> Some c)"
| "search r (x # xs) =
     (case matchAt r (x # xs) [] of [] \<Rightarrow> search r xs | (rest, c) # _ \<Rightarrow> Some c)"

text \<open>
  \<open>str.replace(pattern, '')\<close> with the flag \<open>g\<close>: scanning from the left, each match
  is dropped and the scan goes on behind it; where there is no match, or only an empty
  one, the character is kept and the scan moves one character on.
\<close>

fun removeAll :: "regex \<Rightarrow> string \<Rightarrow> string" where
  "removeAll r [] = []"
| "removeAll r (x # xs) =
     (case matchAt r (x # xs) [] of
        [] \<Rightarrow> x # removeAll r xs
      | (rest, c) # _ \<Rightarrow>
          if length rest < length (x # xs) then removeAll r rest else x # removeAll r xs)"

text \<open>Sequences and alternatives of several patterns.\<close>

fun seqs :: "regex list \<Rightarrow> regex" where
  "seqs [] = Lit []"
| "seqs [r] = r"
| "seqs (r # rs) = Seq r (seqs rs)"

fun alts :: "regex list \<Rightarrow> regex" where
  "alts [] = Lit []"
| "alts [r] = r"
| "alts (r # rs) = Alt r (alts rs)"

subsection \<open>The patterns\<close>

text \<open>
  \<^verbatim>\<open>/(\d{1,2}):(\d{2})\s*(am|pm)?/i\<close>,
  \<^verbatim>\<open>/(\d{1,2})\s*(am|pm)/i\<close> and
  \<^verbatim>\<open>/at\s+(\d{1,2})(?::(\d{2}))?\s*(am|pm)?/i\<close>.
  In the second pattern the group around \<open>am|pm\<close> is the second group of the pattern.
\<close>

definition amOrPm :: regex where
  "amOrPm = Alt (Lit ''am'') (Lit ''pm'')"

definition timePatterns :: "regex list" where
  "timePatterns =
     [seqs [Group 1 (Rep Digit 1 (Some 2)), Lit '':'', Group 2 (Rep Digit 2 (Some 2)),
            Rep Space 0 None, Opt (Group 3 amOrPm)],
      seqs [Group 1 (Rep Digit 1 (Some 2)), Rep Space 0 None, Group 2 amOrPm],
      seqs [Lit ''at'', Rep Space 1 None, Group 1 (Rep Digit 1 (Some 2)),
            Opt (Seq (Lit '':'') (Group 2 (Rep Digit 2 (Some 2)))),
            Rep Space 0 None, Opt (Group 3 amOrPm)]]"

text \<open>
  \<^verbatim>\<open>/(\d+)\s*minutes?\s*(?:before|early|ahead)/i\<close> and
  \<^verbatim>\<open>/remind\s*(?:me)?\s*(\d+)\s*minutes?/i\<close>.
\<close>

definition minutesWord :: regex where
  "minutesWord = Seq (Lit ''minute'') (Opt (Lit ''s''))"

definition reminderPatterns :: "regex list" where
  "reminderPatterns =
     [seqs [Group 1 (Rep Digit 1 None), Rep Space 0 None, minutesWord, Rep Space 0 None,
            alts [Lit ''before'', Lit ''early'', Lit ''ahead'']],
      seqs [Lit ''remind'', Rep Space 0 None, Opt (Lit ''me''), Rep Space 0 None,
            Group 1 (Rep Digit 1 None), Rep Space 0 None, minutesWord]]"

text \<open>
  The pattern of the title clean-up, with the flags \<open>g\<close> and \<open>i\<close>; its ten
  alternatives in the order of the source:
  \<^verbatim>\<open>add schedule|schedule|remind me to|remind me|set reminder for|set reminder\<close>
  \<^verbatim>\<open>|at\s+\d{1,2}(:\d{2})?\s*(am|pm)?|\d{1,2}(:\d{2})?\s*(am|pm)?\<close>
  \<^verbatim>\<open>|\d+\s*minutes?\s*(?:before|early|ahead)|remind\s*(?:me)?\s*\d+\s*minutes?\<close>
\<close>

definition titlePattern :: regex where
  "titlePattern =
     alts [Lit ''add schedule'', Lit ''schedule'', Lit ''remind me to'', Lit ''remind me'',
           Lit ''set reminder for'', Lit ''set reminder'',
           seqs [Lit ''at'', Rep Space 1 None, Rep Digit 1 (Some 2),
                 Opt (Group 1 (Seq (Lit '':'') (Rep Digit 2 (Some 2)))),
                 Rep Space 0 None, Opt (Group 2 amOrPm)],
           seqs [Rep Digit 1 (Some 2),
                 Opt (Group 3 (Seq (Lit '':'') (Rep Digit 2 (Some 2)))),
                 Rep Space 0 None, Opt (Group 4 amOrPm)],
           seqs [Rep Digit 1 None, Rep Space 0 None, minutesWord, Rep Space 0 None,
                 alts [Lit ''before'', Lit ''early'', Lit ''ahead'']],
           seqs [Lit ''remind'', Rep Space 0 None, Opt (Lit ''me''), Rep Space 0 None,
                 Rep Digit 1 None, Rep Space 0 None, minutesWord]]"

subsection \<open>The parser\<close>

text \<open>
  \<open>parseInt(s)\<close> on a captured group: the value of the leading run of decimal digits
  after leading white space, NaN when there is none. (No captured group of the patterns
  above holds a sign or a radix prefix.)
\<close>

definition parseInt :: "string \<Rightarrow> nat option" where
  "parseInt s =
     (let ds = takeWhile isDigit (dropWhile isSpace s)
      in if ds = [] then None else Some (digitsValue ds))"

text \<open>The first pattern of a list that matches somewhere decides.\<close>

fun firstMatch :: "regex list \<Rightarrow> string \<Rightarrow> captures option" where
  "firstMatch [] transcript = None"
| "firstMatch (pattern # patterns) transcript =
     (case search pattern transcript of
        Some m \<Rightarrow> Some m
      | None \<Rightarrow> firstMatch patterns transcript)"

text \<open>
  The loop over \<open>timePatterns\<close>: hours, minutes and \<open>timeFound\<close>. The hours are an
  option because \<open>parseInt\<close> is; \<open>match[3]\<close> is the group numbered 3, which only the
  first and the third pattern have.
\<close>

definition parseTime :: "string \<Rightarrow> nat option \<times> nat \<times> bool" where
  "parseTime transcript =
     (case firstMatch timePatterns transcript of
        None \<Rightarrow> (Some 9, 0, False)
      | Some m \<Rightarrow>
          let hours0 = Option.bind (map_of m 1) parseInt;
              minutes =
                (case map_of m 2 of
                   None \<Rightarrow> 0
                 | Some g \<Rightarrow> (if g = [] then 0 else case parseInt g of None \<Rightarrow> 0 | Some n \<Rightarrow> n));
              period = map_option (map toLowerChar) (map_of m 3);
              hours1 =
                (case hours0 of
                   None \<Rightarrow> None
                 | Some h \<Rightarrow> if period = Some ''pm'' \<and> h < 12 then Some (h + 12) else Some h);
              hours2 =
                (case hours1 of
                   None \<Rightarrow> None
                 | Some h \<Rightarrow> if period = Some ''am'' \<and> h = 12 then Some 0 else Some h)
          in (hours2, minutes, True))"

text \<open>The loop over \<open>reminderPatterns\<close>; the default is 10.\<close>

definition parseReminder :: "string \<Rightarrow> nat option" where
  "parseReminder transcript =
     (case firstMatch reminderPatterns transcript of
        None \<Rightarrow> Some 10
      | Some m \<Rightarrow> Option.bind (map_of m 1) parseInt)"

text \<open>\<open>trim\<close>, and the title: clean-up, trimming, upper-case first letter, fall-back.\<close>

definition trim :: "string \<Rightarrow> string" where
  "trim s = rev (dropWhile isSpace (rev (dropWhile isSpace s)))"

definition parseTitle :: "string \<Rightarrow> string" where
  "parseTitle transcript =
     (let title0 = trim (removeAll titlePattern transcript);
          title1 = (case title0 of [] \<Rightarrow> [] | c # cs \<Rightarrow> toUpperChar c # cs)
      in if title1 = [] \<or> length title1 < 2 then ''New Reminder'' else title1)"

text \<open>\<open>String(n).padStart(2, '0')\<close> and the time string \<open>HH:MM\<close>.\<close>

definition padStart2 :: "string \<Rightarrow> string" where
  "padStart2 s = replicate (2 - length s) CHR ''0'' @ s"

definition numberToString :: "nat option \<Rightarrow> string" where
  "numberToString n = (case n of None \<Rightarrow> ''NaN'' | Some k \<Rightarrow> natToString k)"

definition timeString :: "string \<Rightarrow> string" where
  "timeString transcript =
     (case parseTime transcript of
        (hours, minutes, timeFound) \<Rightarrow>
          padStart2 (numberToString hours) @ '':'' @ padStart2 (natToString minutes))"

text \<open>
  \<open>addSchedule\<close> appends a fresh item; its identifier is the current time as text,
  taken here as a parameter. An absent lead becomes 10.
\<close>

definition addSchedule ::
  "string \<Rightarrow> string \<Rightarrow> string \<Rightarrow> string option \<Rightarrow> int option \<Rightarrow> ScheduleItem list \<Rightarrow> ScheduleItem list" where
  "addSchedule newId newTitle newTime newDescription newReminder schedules =
     schedules @
       [\<lparr>item_id = newId, title = newTitle, time = newTime, description = newDescription,
         reminderMinutes = Some (case newReminder of None \<Rightarrow> 10 | Some r \<Rightarrow> r),
         reminded = Some False, notified = Some False\<rparr>]"

text \<open>
  The parser as a whole, on the collection: the item added for a transcript. The toast
  and the spoken confirmation are left out. (A lead that is NaN cannot come out of the
  two reminder patterns; it is passed on as absent.)
\<close>

definition parseAndAddSchedule :: "string \<Rightarrow> string \<Rightarrow> ScheduleItem list \<Rightarrow> ScheduleItem list" where
  "parseAndAddSchedule newId transcript schedules =
     addSchedule newId (parseTitle transcript) (timeString transcript) None
       (map_option int (parseReminder transcript)) schedules"

section \<open>Auxiliary notions and sample inputs\<close>

text \<open>A sequence of flag values that never goes from true to false.\<close>

fun nondecreasing :: "bool list \<Rightarrow> bool" where
  "nondecreasing (x # y # zs) = ((x \<longrightarrow> y) \<and> nondecreasing (y # zs))"
| "nondecreasing _ = True"

text \<open>The two items the schedule page starts with, and an item with a lead of zero.\<close>

definition morning :: ScheduleItem where
  "morning = \<lparr>item_id = ''1'', title = ''Morning Medicine'', time = ''08:00'',
              description = Some ''Take blood pressure medication with water'',
              reminderMinutes = Some 10, reminded = None, notified = None\<rparr>"

definition lunch :: ScheduleItem where
  "lunch = \<lparr>item_id = ''2'', title = ''Lunch Reminder'', time = ''12:30'',
            description = Some ''Time for lunch'', reminderMinutes = Some 10,
            reminded = None, notified = None\<rparr>"

definition zeroLead :: ScheduleItem where
  "zeroLead = \<lparr>item_id = ''3'', title = ''Call mom'', time = ''14:00'',
               description = None, reminderMinutes = Some 0,
               reminded = Some False, notified = Some False\<rparr>"

text \<open>
  A route with one step, at the origin, not yet announced; the same route after that
  step was announced; the same route with the voice switched off; and a position on
  the meridian of the origin, 40 meters to the north of it.
\<close>

definition turnLeft :: RouteStep where
  "turnLeft = \<lparr>instruction = ''Turn left'', distance = 120, location = (0, 0), announced = False\<rparr>"

definition lastLeg :: NavState where
  "lastLeg = \<lparr>routeSteps = [turnLeft], currentStepIndex = 0, isNavigating = True,
              voiceEnabled = True\<rparr>"

definition lastLegAnnounced :: NavState where
  "lastLegAnnounced = lastLeg\<lparr>routeSteps := [turnLeft\<lparr>announced := True\<rparr>]\<rparr>"

definition muted :: NavState where
  "muted = lastLeg\<lparr>voiceEnabled := False\<rparr>"

definition fortyMetersNorth :: coord where
  "fortyMetersNorth = (0, 7200 / (6371000 * pi))"

text \<open>
  A route with two steps, the second 40 meters north of the first, and the same route
  after the first step was announced.
\<close>

definition turnRight :: RouteStep where
  "turnRight = \<lparr>instruction = ''Turn right'', distance = 120, location = fortyMetersNorth,
                 announced = False\<rparr>"

definition twoLegs :: NavState where
  "twoLegs = \<lparr>routeSteps = [turnLeft, turnRight], currentStepIndex = 0, isNavigating = True,
              voiceEnabled = True\<rparr>"

definition secondLeg :: NavState where
  "secondLeg = twoLegs\<lparr>routeSteps := [turnLeft\<lparr>announced := True\<rparr>, turnRight],
                       currentStepIndex := 1\<rparr>"

section \<open>Properties of the reminder clock\<close>

subsection \<open>One item, one tick\<close>

lemma checkSchedule_cases:
  "checkSchedule now schedule = (None, schedule) \<or>
   (\<exists>d. timeDiffMinutes now schedule = Some d \<and> \<not> truthy (reminded schedule) \<and> 0 < d \<and>
        d \<le> leadMinutes schedule \<and>
        checkSchedule now schedule = (Some (AdvanceNotice schedule d), schedule\<lparr>reminded := Some True\<rparr>)) \<or>
   (\<exists>d. timeDiffMinutes now schedule = Some d \<and> \<not> truthy (notified schedule) \<and> - 2 < d \<and> d \<le> 0 \<and>
        checkSchedule now schedule = (Some (ExactNotice schedule), schedule\<lparr>notified := Some True\<rparr>))"
  by (auto simp: checkSchedule_def split: option.splits)

text \<open>
  The advance reminder fires exactly when the flag is unset and the difference lies
  between one minute and the lead that \<open>leadMinutes\<close> computes.
\<close>

lemma advance_fires_iff:
  "(fst (checkSchedule now schedule) = Some (AdvanceNotice schedule n)) =
   (timeDiffMinutes now schedule = Some n \<and> \<not> truthy (reminded schedule) \<and> 0 < n \<and> n \<le> leadMinutes schedule)"
  by (auto simp: checkSchedule_def split: option.splits)

lemma exact_fires_iff:
  "(fst (checkSchedule now schedule) = Some (ExactNotice schedule)) =
   (\<exists>d. timeDiffMinutes now schedule = Some d \<and> \<not> truthy (notified schedule) \<and> - 2 < d \<and> d \<le> 0)"
  by (auto simp: checkSchedule_def split: option.splits)

lemma neither_fires:
  assumes "\<not> (\<exists>d. timeDiffMinutes now schedule = Some d \<and> \<not> truthy (reminded schedule) \<and> 0 < d \<and>
               d \<le> leadMinutes schedule)"
    and "\<not> (\<exists>d. timeDiffMinutes now schedule = Some d \<and> \<not> truthy (notified schedule) \<and> - 2 < d \<and> d \<le> 0)"
  shows "checkSchedule now schedule = (None, schedule)"
  using assms checkSchedule_cases [of now schedule] by blast

lemma notice_item:
  "fst (checkSchedule now y) = Some (ExactNotice x) \<Longrightarrow> x = y"
  "fst (checkSchedule now y) = Some (AdvanceNotice x n) \<Longrightarrow> x = y"
  by (auto simp: checkSchedule_def split: option.splits if_splits)

lemma checkSchedule_reminded_mono:
  "truthy (reminded x) \<Longrightarrow> truthy (reminded (snd (checkSchedule now x)))"
  using checkSchedule_cases [of now x] by (auto simp: truthy_def)

lemma checkSchedule_notified_mono:
  "truthy (notified x) \<Longrightarrow> truthy (notified (snd (checkSchedule now x)))"
  using checkSchedule_cases [of now x] by (auto simp: truthy_def)

subsection \<open>The whole collection\<close>

lemma map_filter_of_map:
  "List.map_filter f (map g xs) = List.map_filter (\<lambda>x. f (g x)) xs"
  by (induction xs) (simp_all split: option.splits)

lemma set_of_map_filter:
  "set (List.map_filter f xs) = {y. \<exists>x \<in> set xs. f x = Some y}"
  by (induction xs) (auto split: option.splits)

lemma fst_checkSchedules:
  "fst (checkSchedules now schedules) = List.map_filter (\<lambda>x. fst (checkSchedule now x)) schedules"
  by (simp add: checkSchedules_def Let_def map_filter_of_map)

lemma fired_set:
  "set (fst (checkSchedules now schedules)) =
     {e. \<exists>y \<in> set schedules. fst (checkSchedule now y) = Some e}"
  by (simp add: fst_checkSchedules set_of_map_filter)

text \<open>
  Whether or not \<open>hasUpdates\<close> was set, the collection held after the tick is the
  list of the items returned by the callback.
\<close>

lemma snd_checkSchedules:
  "snd (checkSchedules now schedules) = map (\<lambda>x. snd (checkSchedule now x)) schedules"
proof (cases "list_ex (\<lambda>r. fst r \<noteq> None) (map (checkSchedule now) schedules)")
  case True
  then show ?thesis by (simp add: checkSchedules_def Let_def)
next
  case False
  then have "\<forall>x \<in> set schedules. fst (checkSchedule now x) = None"
    by (auto simp: list_ex_iff)
  then have "\<forall>x \<in> set schedules. snd (checkSchedule now x) = x"
    using checkSchedule_cases by (metis fst_conv option.distinct(1) snd_conv)
  then have "map (\<lambda>x. snd (checkSchedule now x)) schedules = schedules"
    by (simp add: map_idI)
  with False show ?thesis by (simp add: checkSchedules_def Let_def)
qed

lemma length_checkSchedules: "length (snd (checkSchedules now schedules)) = length schedules"
  by (simp add: snd_checkSchedules)

lemma nth_checkSchedules:
  "i < length schedules \<Longrightarrow>
     snd (checkSchedules now schedules) ! i = snd (checkSchedule now (schedules ! i))"
  by (simp add: snd_checkSchedules)

subsection \<open>Sample instants\<close>

lemma morning_date: "scheduleDate morning = Some 28800000"
  by (simp add: scheduleDate_def morning_def Number_def isDigit_def digitsValue_def digitValue_def)

lemma lunch_date: "scheduleDate lunch = Some 45000000"
  by (simp add: scheduleDate_def lunch_def Number_def isDigit_def digitsValue_def digitValue_def)

lemma zeroLead_date: "scheduleDate zeroLead = Some 50400000"
  by (simp add: scheduleDate_def zeroLead_def Number_def isDigit_def digitsValue_def digitValue_def)

subsection \<open>The exact-time notice\<close>

text \<open>
  Claim C3. For an item whose exact-notice flag \<open>notified\<close> is not yet set, a tick fires
  the exact-time notice for it exactly when the difference in whole minutes between the
  item's time today and now is greater than -2 and at most 0. In particular it
  fires when now is the item's time (difference 0), and it does not fire when the
  difference is -2 or less.
\<close>
theorem exact_notice_window:
  assumes "i < length schedules" and "\<not> truthy (notified (schedules ! i))"
  shows "((ExactNotice (schedules ! i) \<in> set (fst (checkSchedules now schedules))) =
            (\<exists>d. timeDiffMinutes now (schedules ! i) = Some d \<and> - 2 < d \<and> d \<le> 0)) \<and>
         (scheduleDate (schedules ! i) = Some now \<longrightarrow>
            ExactNotice (schedules ! i) \<in> set (fst (checkSchedules now schedules))) \<and>
         (\<forall>d. timeDiffMinutes now (schedules ! i) = Some d \<and> d \<le> - 2 \<longrightarrow>
            ExactNotice (schedules ! i) \<notin> set (fst (checkSchedules now schedules)))"
proof -
  let ?x = "schedules ! i"
  have mem: "?x \<in> set schedules" using assms(1) by simp
  have "(ExactNotice ?x \<in> set (fst (checkSchedules now schedules))) =
        (fst (checkSchedule now ?x) = Some (ExactNotice ?x))"
    using mem notice_item(1) by (auto simp: fired_set)
  then have 1: "(ExactNotice ?x \<in> set (fst (checkSchedules now schedules))) =
           (\<exists>d. timeDiffMinutes now ?x = Some d \<and> - 2 < d \<and> d \<le> 0)"
    using assms(2) by (simp add: exact_fires_iff)
  have 2: "scheduleDate ?x = Some now \<longrightarrow> ExactNotice ?x \<in> set (fst (checkSchedules now schedules))"
    unfolding 1 by (simp add: timeDiffMinutes_def)
  have 3: "\<forall>d. timeDiffMinutes now ?x = Some d \<and> d \<le> - 2 \<longrightarrow>
            ExactNotice ?x \<notin> set (fst (checkSchedules now schedules))"
    unfolding 1 by auto
  from 1 2 3 show ?thesis by blast
qed

theorem exact_notice_window_witness:
  "0 < length [lunch] \<and> \<not> truthy (notified ([lunch] ! 0)) \<and>
   ExactNotice lunch \<in> set (fst (checkSchedules 45000000 [lunch])) \<and>
   ExactNotice lunch \<notin> set (fst (checkSchedules 45120000 [lunch]))"
proof -
  have h1: "0 < length [lunch]" by simp
  have h2: "\<not> truthy (notified ([lunch] ! 0))" by (simp add: lunch_def truthy_def)
  have d2: "timeDiffMinutes 45120000 ([lunch] ! 0) = Some (- 2)"
    by (simp add: timeDiffMinutes_def lunch_date)
  have d1: "timeDiffMinutes 45000000 ([lunch] ! 0) = Some 0"
    by (simp add: timeDiffMinutes_def lunch_date)
  from exact_notice_window [OF h1 h2, of 45000000] exact_notice_window [OF h1 h2, of 45120000]
    d1 d2 h2
  show ?thesis by simp
qed

subsection \<open>The flags over repeated ticks\<close>

lemma ticks_Cons: "\<exists>rest. ticks nows schedules = schedules # rest"
  by (cases nows) simp_all

lemma nondecreasing_flips:
  "nondecreasing bs \<Longrightarrow> flips False True bs \<le> 1 \<and> flips True False bs = 0 \<and>
     (bs \<noteq> [] \<and> hd bs \<longrightarrow> flips False True bs = 0)"
  by (induction bs rule: nondecreasing.induct) auto

lemma ticks_nondecreasing:
  assumes step: "\<And>now x. f x \<Longrightarrow> f (snd (checkSchedule now x))"
  shows "i < length schedules \<Longrightarrow> nondecreasing (map (\<lambda>ss. f (ss ! i)) (ticks nows schedules))"
proof (induction nows arbitrary: schedules)
  case Nil
  then show ?case by simp
next
  case (Cons now nows)
  let ?s' = "snd (checkSchedules now schedules)"
  obtain rest where r: "ticks nows ?s' = ?s' # rest" using ticks_Cons by blast
  have "i < length ?s'" using Cons.prems by (simp add: length_checkSchedules)
  then have ih: "nondecreasing (map (\<lambda>ss. f (ss ! i)) (ticks nows ?s'))" by (rule Cons.IH)
  have "f (schedules ! i) \<longrightarrow> f (?s' ! i)"
    using Cons.prems step by (simp add: nth_checkSchedules)
  with ih r show ?case by simp
qed

text \<open>
  Claim C4. For every item of the collection and every sequence of tick instants
  (increasing or not), the values of the advance flag \<open>reminded\<close> before and after the
  ticks go from unset to set at most once and never from set to unset; the same holds
  for the exact-notice flag \<open>notified\<close>.
\<close>

theorem flags_flip_at_most_once:
  assumes "i < length schedules"
  shows "flips False True (map (\<lambda>ss. truthy (reminded (ss ! i))) (ticks nows schedules)) \<le> 1 \<and>
         flips True False (map (\<lambda>ss. truthy (reminded (ss ! i))) (ticks nows schedules)) = 0 \<and>
         flips False True (map (\<lambda>ss. truthy (notified (ss ! i))) (ticks nows schedules)) \<le> 1 \<and>
         flips True False (map (\<lambda>ss. truthy (notified (ss ! i))) (ticks nows schedules)) = 0"
proof -
  have r: "nondecreasing (map (\<lambda>ss. truthy (reminded (ss ! i))) (ticks nows schedules))"
    using assms checkSchedule_reminded_mono
    by (rule ticks_nondecreasing [where f = "\<lambda>x. truthy (reminded x)", rotated])
  have n: "nondecreasing (map (\<lambda>ss. truthy (notified (ss ! i))) (ticks nows schedules))"
    using assms checkSchedule_notified_mono
    by (rule ticks_nondecreasing [where f = "\<lambda>x. truthy (notified x)", rotated])
  from nondecreasing_flips [OF r] nondecreasing_flips [OF n] show ?thesis by blast
qed


theorem flags_flip_at_most_once_witness:
  "0 < length [lunch] \<and>
   map (\<lambda>ss. truthy (reminded (ss ! 0))) (ticks [44400000, 44430000] [lunch]) = [False, True, True] \<and>
   flips False True (map (\<lambda>ss. truthy (reminded (ss ! 0))) (ticks [44400000, 44430000] [lunch])) \<le> 1"
proof -
  have h: "0 < length [lunch]" by simp
  have d1: "timeDiffMinutes 44400000 lunch = Some 10"
    by (simp add: timeDiffMinutes_def lunch_date)
  have c1: "checkSchedule 44400000 lunch =
              (Some (AdvanceNotice lunch 10), lunch\<lparr>reminded := Some True\<rparr>)"
    by (simp add: checkSchedule_def d1 leadMinutes_def) (simp add: lunch_def truthy_def)
  have d2: "timeDiffMinutes 44430000 (lunch\<lparr>reminded := Some True\<rparr>) = Some 9"
    using lunch_date by (simp add: timeDiffMinutes_def scheduleDate_def)
  have c2: "checkSchedule 44430000 (lunch\<lparr>reminded := Some True\<rparr>) =
              (None, lunch\<lparr>reminded := Some True\<rparr>)"
    by (simp add: checkSchedule_def d2 truthy_def)
  have t: "ticks [44400000, 44430000] [lunch] =
             [[lunch], [lunch\<lparr>reminded := Some True\<rparr>], [lunch\<lparr>reminded := Some True\<rparr>]]"
    by (simp add: snd_checkSchedules c1 c2)
  have m: "map (\<lambda>ss. truthy (reminded (ss ! 0))) (ticks [44400000, 44430000] [lunch]) =
             [False, True, True]"
    unfolding t by (simp add: truthy_def lunch_def)
  from flags_flip_at_most_once [OF h, of "[44400000, 44430000]"] h m show ?thesis by simp
qed

subsection \<open>What a tick leaves alone\<close>

text \<open>
  Claim C9. In every tick the collection keeps its length, the events are exactly those
  of the items the callback fires on, and for every item: if neither the condition of
  the advance reminder nor that of the exact-time notice holds, the item is returned as
  it was and no event is emitted for it; and an item that is returned changed differs
  from the input item only in one notice flag, which was unset and is now set.
\<close>

theorem tick_changes_only_fired_items:
  "length (snd (checkSchedules now schedules)) = length schedules \<and>
   fst (checkSchedules now schedules) =
     List.map_filter (\<lambda>x. fst (checkSchedule now x)) schedules \<and>
   (\<forall>i < length schedules.
      (\<not> (\<exists>d. timeDiffMinutes now (schedules ! i) = Some d \<and>
               \<not> truthy (reminded (schedules ! i)) \<and> 0 < d \<and> d \<le> leadMinutes (schedules ! i)) \<and>
       \<not> (\<exists>d. timeDiffMinutes now (schedules ! i) = Some d \<and>
               \<not> truthy (notified (schedules ! i)) \<and> - 2 < d \<and> d \<le> 0)
       \<longrightarrow> snd (checkSchedules now schedules) ! i = schedules ! i \<and>
           fst (checkSchedule now (schedules ! i)) = None) \<and>
      (snd (checkSchedules now schedules) ! i \<noteq> schedules ! i
       \<longrightarrow> (\<not> truthy (reminded (schedules ! i)) \<and>
            snd (checkSchedules now schedules) ! i = (schedules ! i)\<lparr>reminded := Some True\<rparr>) \<or>
           (\<not> truthy (notified (schedules ! i)) \<and>
            snd (checkSchedules now schedules) ! i = (schedules ! i)\<lparr>notified := Some True\<rparr>)))"
proof (intro conjI allI impI)
  show "length (snd (checkSchedules now schedules)) = length schedules"
    by (rule length_checkSchedules)
  show "fst (checkSchedules now schedules) =
          List.map_filter (\<lambda>x. fst (checkSchedule now x)) schedules"
    by (rule fst_checkSchedules)
next
  fix i
  assume i: "i < length schedules"
    and "\<not> (\<exists>d. timeDiffMinutes now (schedules ! i) = Some d \<and>
               \<not> truthy (reminded (schedules ! i)) \<and> 0 < d \<and> d \<le> leadMinutes (schedules ! i)) \<and>
       \<not> (\<exists>d. timeDiffMinutes now (schedules ! i) = Some d \<and>
               \<not> truthy (notified (schedules ! i)) \<and> - 2 < d \<and> d \<le> 0)"
  then have c: "checkSchedule now (schedules ! i) = (None, schedules ! i)"
    using neither_fires by blast
  show "snd (checkSchedules now schedules) ! i = schedules ! i"
    using i c by (simp add: nth_checkSchedules)
  show "fst (checkSchedule now (schedules ! i)) = None"
    using c by simp
next
  fix i
  assume i: "i < length schedules"
    and ne: "snd (checkSchedules now schedules) ! i \<noteq> schedules ! i"
  from i ne have "snd (checkSchedule now (schedules ! i)) \<noteq> schedules ! i"
    by (simp add: nth_checkSchedules)
  with checkSchedule_cases [of now "schedules ! i"] i
  show "(\<not> truthy (reminded (schedules ! i)) \<and>
            snd (checkSchedules now schedules) ! i = (schedules ! i)\<lparr>reminded := Some True\<rparr>) \<or>
           (\<not> truthy (notified (schedules ! i)) \<and>
            snd (checkSchedules now schedules) ! i = (schedules ! i)\<lparr>notified := Some True\<rparr>)"
    by (auto simp: nth_checkSchedules)
qed

theorem tick_changes_only_fired_items_witness:
  "0 < length [morning, lunch] \<and>
   snd (checkSchedules 44700000 [morning, lunch]) ! 0 = morning \<and>
   fst (checkSchedule 44700000 morning) = None \<and>
   checkSchedules 44700000 [morning, lunch] =
     ([AdvanceNotice lunch 5], [morning, lunch\<lparr>reminded := Some True\<rparr>])"
proof -
  have d: "timeDiffMinutes 44700000 ([morning, lunch] ! 0) = Some (- 265)"
    by (simp add: timeDiffMinutes_def morning_date)
  have d': "timeDiffMinutes 44700000 lunch = Some 5"
    by (simp add: timeDiffMinutes_def lunch_date)
  have l: "checkSchedule 44700000 lunch =
             (Some (AdvanceNotice lunch 5), lunch\<lparr>reminded := Some True\<rparr>)"
    by (simp add: checkSchedule_def d' leadMinutes_def) (simp add: lunch_def truthy_def)
  from tick_changes_only_fired_items [of 44700000 "[morning, lunch]"]
  have a: "\<forall>i < length [morning, lunch].
      (\<not> (\<exists>d. timeDiffMinutes 44700000 ([morning, lunch] ! i) = Some d \<and>
               \<not> truthy (reminded ([morning, lunch] ! i)) \<and> 0 < d \<and> d \<le> leadMinutes ([morning, lunch] ! i)) \<and>
       \<not> (\<exists>d. timeDiffMinutes 44700000 ([morning, lunch] ! i) = Some d \<and>
               \<not> truthy (notified ([morning, lunch] ! i)) \<and> - 2 < d \<and> d \<le> 0)
       \<longrightarrow> snd (checkSchedules 44700000 [morning, lunch]) ! i = [morning, lunch] ! i \<and>
           fst (checkSchedule 44700000 ([morning, lunch] ! i)) = None)"
    and b: "fst (checkSchedules 44700000 [morning, lunch]) =
              List.map_filter (\<lambda>x. fst (checkSchedule 44700000 x)) [morning, lunch]"
    by blast+
  from a [rule_format, of 0] d
  have m: "snd (checkSchedules 44700000 [morning, lunch]) ! 0 = morning"
    "fst (checkSchedule 44700000 morning) = None" by simp_all
  have "snd (checkSchedules 44700000 [morning, lunch]) =
          [snd (checkSchedule 44700000 morning), lunch\<lparr>reminded := Some True\<rparr>]"
    by (simp add: snd_checkSchedules l)
  with m have s: "snd (checkSchedules 44700000 [morning, lunch]) =
          [morning, lunch\<lparr>reminded := Some True\<rparr>]" by simp
  from b m l have f: "fst (checkSchedules 44700000 [morning, lunch]) = [AdvanceNotice lunch 5]"
    by simp
  from m s f show ?thesis by (simp add: prod_eq_iff)
qed

subsection \<open>The advance reminder\<close>

text \<open>
  With a lead of 10 and the flag unset, every tick from ten minutes to one minute
  before the item's time fires the advance reminder, and nothing else, for the item.
\<close>

lemma advance_window_ten:
  assumes "\<not> truthy (reminded schedule)" and "leadMinutes schedule = 10"
    and "scheduleDate schedule = Some t" and "60000 \<le> t - now" and "t - now \<le> 600000"
  shows "checkSchedule now schedule =
           (Some (AdvanceNotice schedule ((t - now) div 60000)), schedule\<lparr>reminded := Some True\<rparr>)"
proof -
  have "0 < (t - now) div 60000" "(t - now) div 60000 \<le> 10"
    using assms(4,5) by simp_all
  then show ?thesis using assms(1,2,3)
    by (simp add: checkSchedule_def timeDiffMinutes_def)
qed

text \<open>
  Claim C2. The advance reminder is to fire exactly when the flag is unset and the
  difference in minutes is positive and at most the lead of the item. For an item whose
  lead is 0 the tick takes 10 as the lead: five minutes before the item's time, with
  the difference 5 above the lead 0, the advance reminder fires and the flag is set.
\<close>

theorem zero_lead_fires_at_five_minutes:
  "reminderMinutes zeroLead = Some 0 \<and> \<not> truthy (reminded zeroLead) \<and>
   timeDiffMinutes 50100000 zeroLead = Some 5 \<and>
   checkSchedules 50100000 [zeroLead] =
     ([AdvanceNotice zeroLead 5], [zeroLead\<lparr>reminded := Some True\<rparr>])"
proof -
  have d: "timeDiffMinutes 50100000 zeroLead = Some 5"
    by (simp add: timeDiffMinutes_def zeroLead_date)
  have r: "reminderMinutes zeroLead = Some 0" "\<not> truthy (reminded zeroLead)"
    by (simp_all add: zeroLead_def truthy_def)
  have c: "checkSchedule 50100000 zeroLead =
             (Some (AdvanceNotice zeroLead 5), zeroLead\<lparr>reminded := Some True\<rparr>)"
    using r by (simp add: checkSchedule_def d leadMinutes_def)
  show ?thesis using d r c by (simp add: checkSchedules_def)
qed

text \<open>The parser itself produces an item with a lead of zero.\<close>

lemma zero_lead_from_transcript:
  "parseAndAddSchedule ''3'' ''remind me to call mom at 2:00 pm 0 minutes before'' [] =
     [zeroLead\<lparr>title := ''Call mom  minutes before''\<rparr>]"
  unfolding zeroLead_def by code_simp

section \<open>Properties of the route announcer\<close>

subsection \<open>Marking a step and measuring distances\<close>

lemma length_markAnnounced [simp]: "length (markAnnounced i prev) = length prev"
  by (simp add: markAnnounced_def)

lemma nth_markAnnounced:
  "j < length prev \<Longrightarrow>
     markAnnounced i prev ! j = (if j = i then (prev ! j)\<lparr>announced := True\<rparr> else prev ! j)"
  by (simp add: markAnnounced_def)

lemma markAnnounced_update:
  "markAnnounced i prev = (if i < length prev then prev[i := (prev ! i)\<lparr>announced := True\<rparr>] else prev)"
  by (rule nth_equalityI) (auto simp: nth_markAnnounced nth_list_update)

text \<open>A position at the trigger location is at distance 0 from it.\<close>

lemma distance_self: "getDistanceBetweenPoints p p = Some 0"
  by (simp add: getDistanceBetweenPoints_def atan2_def)

text \<open>
  From a point on a meridian, less than 90 degrees north of the equator, to the
  equator along that meridian: the distance is the arc of the latitude.
\<close>

lemma distance_along_meridian:
  assumes "0 \<le> t" and "t < 90"
  shows "getDistanceBetweenPoints (x, t) (x, 0) = Some (6371000 * (t * pi / 180))"
proof -
  define u where "u = t * pi / 360"
  have u0: "0 \<le> u" using assms(1) by (simp add: u_def)
  have "t * pi < 90 * pi" using assms(2) by simp
  then have u1: "u < pi / 2" by (simp add: u_def)
  have c: "0 < cos u" using u0 u1 by (intro cos_gt_zero_pi) (auto intro: less_le_trans [of _ 0])
  have s: "0 \<le> sin u" using u0 u1 by (intro sin_ge_zero) auto
  have a1: "1 - sin u * sin u = cos u * cos u"
    using sin_cos_squared_add [of u] by (simp add: power2_eq_square algebra_simps)
  have sq1: "sqrt (sin u * sin u) = sin u" using s by simp
  have sq2: "sqrt (cos u * cos u) = cos u" using c by simp
  have at: "atan2 (sin u) (cos u) = u"
    using c u0 u1 arctan_tan [of u] by (simp add: atan2_def tan_def)
  have nn: "\<not> sin u * sin u < 0" by (simp add: not_less)
  have le1: "\<not> cos u * cos u < 0" by (simp add: not_less)
  have "getDistanceBetweenPoints (x, t) (x, 0) =
          (if sin u * sin u < 0 \<or> 1 - sin u * sin u < 0 then None
           else Some (6371000 * (2 * atan2 (sqrt (sin u * sin u)) (sqrt (1 - sin u * sin u)))))"
    by (simp add: getDistanceBetweenPoints_def Let_def u_def)
  also have "\<dots> = Some (6371000 * (2 * u))"
    by (simp only: a1 sq1 sq2 at nn le1 simp_thms if_False)
  also have "6371000 * (2 * u) = 6371000 * (t * pi / 180)"
    by (simp add: u_def)
  finally show ?thesis .
qed

lemma distance_fortyMetersNorth:
  "getDistanceBetweenPoints fortyMetersNorth (0, 0) = Some 40"
proof -
  have "(7200::real) < 90 * (6371000 * pi)" using pi_ge_two by simp
  then have "7200 / (6371000 * pi) < 90" by (simp add: pos_divide_less_eq)
  then show ?thesis
    unfolding fortyMetersNorth_def
    by (subst distance_along_meridian) simp_all
qed

lemma roundToString_40: "roundToString 40 = ''40''"
proof -
  have "\<lfloor>(40::real) + 1 / 2\<rfloor> = 40" by linarith
  then show ?thesis
    by (simp add: roundToString_def intToString_def natToString.simps digitChar_def)
qed

text \<open>The same arc in the other direction, from the equator northwards.\<close>

lemma distance_along_meridian_north:
  assumes "0 \<le> t" and "t < 90"
  shows "getDistanceBetweenPoints (x, 0) (x, t) = Some (6371000 * (t * pi / 180))"
proof -
  define u where "u = t * pi / 360"
  have u0: "0 \<le> u" using assms(1) by (simp add: u_def)
  have "t * pi < 90 * pi" using assms(2) by simp
  then have u1: "u < pi / 2" by (simp add: u_def)
  have c: "0 < cos u" using u0 u1 by (intro cos_gt_zero_pi) (auto intro: less_le_trans [of _ 0])
  have s: "0 \<le> sin u" using u0 u1 by (intro sin_ge_zero) auto
  have a1: "1 - sin u * sin u = cos u * cos u"
    using sin_cos_squared_add [of u] by (simp add: power2_eq_square algebra_simps)
  have sq1: "sqrt (sin u * sin u) = sin u" using s by simp
  have sq2: "sqrt (cos u * cos u) = cos u" using c by simp
  have at: "atan2 (sin u) (cos u) = u"
    using c u0 u1 arctan_tan [of u] by (simp add: atan2_def tan_def)
  have nn: "\<not> sin u * sin u < 0" by (simp add: not_less)
  have le1: "\<not> cos u * cos u < 0" by (simp add: not_less)
  have "getDistanceBetweenPoints (x, 0) (x, t) =
          (if sin u * sin u < 0 \<or> 1 - sin u * sin u < 0 then None
           else Some (6371000 * (2 * atan2 (sqrt (sin u * sin u)) (sqrt (1 - sin u * sin u)))))"
    by (simp add: getDistanceBetweenPoints_def Let_def u_def)
  also have "\<dots> = Some (6371000 * (2 * u))"
    by (simp only: a1 sq1 sq2 at nn le1 simp_thms if_False)
  also have "6371000 * (2 * u) = 6371000 * (t * pi / 180)"
    by (simp add: u_def)
  finally show ?thesis .
qed

lemma distance_to_fortyMetersNorth:
  "getDistanceBetweenPoints (0, 0) fortyMetersNorth = Some 40"
proof -
  have "(7200::real) < 90 * (6371000 * pi)" using pi_ge_two by simp
  then have "7200 / (6371000 * pi) < 90" by (simp add: pos_divide_less_eq)
  then show ?thesis
    unfolding fortyMetersNorth_def
    by (subst distance_along_meridian_north) simp_all
qed

lemma roundToString_120: "roundToString 120 = ''120''"
proof -
  have "\<lfloor>(120::real) + 1 / 2\<rfloor> = 120" by linarith
  then show ?thesis
    by (simp add: roundToString_def intToString_def natToString.simps digitChar_def)
qed

subsection \<open>Within 30 meters of the trigger location\<close>

text \<open>
  Claim C5, as amended. While navigation is active and the voice is enabled, with the
  cursor on a step that has not been announced yet, a position update whose distance to
  that step's trigger location is below 30 meters speaks the step's instruction and
  marks the step announced. If a later step exists, the cursor moves on by one and a
  preview of the next step is scheduled; if it was the last step, the cursor stays and
  the arrival is scheduled, which ends navigation when it runs. A position exactly at
  the trigger location is at distance 0 and so within the 30 meters.
\<close>

theorem announce_within_30_meters:
  assumes "isNavigating s" and "voiceEnabled s"
    and "currentStepIndex s < length (routeSteps s)"
    and "\<not> announced (routeSteps s ! currentStepIndex s)"
    and "getDistanceBetweenPoints p (location (routeSteps s ! currentStepIndex s)) = Some d"
    and "d < 30"
  shows "(currentStepIndex s + 1 < length (routeSteps s) \<longrightarrow>
            checkAndAnnounceDirection s p =
              (s\<lparr>routeSteps := (routeSteps s)[currentStepIndex s :=
                     (routeSteps s ! currentStepIndex s)\<lparr>announced := True\<rparr>],
                 currentStepIndex := currentStepIndex s + 1\<rparr>,
               [Now (Speak (currentStepIndex s) (instruction (routeSteps s ! currentStepIndex s))),
                After 3000 (Speak (currentStepIndex s + 1)
                  ((if distance (routeSteps s ! (currentStepIndex s + 1)) > 100
                    then ''In '' @ roundToString (distance (routeSteps s ! (currentStepIndex s + 1)))
                           @ '' meters''
                    else ''Shortly'')
                   @ '', '' @ instruction (routeSteps s ! (currentStepIndex s + 1))))])) \<and>
         (\<not> currentStepIndex s + 1 < length (routeSteps s) \<longrightarrow>
            checkAndAnnounceDirection s p =
              (s\<lparr>routeSteps := (routeSteps s)[currentStepIndex s :=
                     (routeSteps s ! currentStepIndex s)\<lparr>announced := True\<rparr>]\<rparr>,
               [Now (Speak (currentStepIndex s) (instruction (routeSteps s ! currentStepIndex s))),
                After 2000 Arrive]) \<and>
            \<not> isNavigating (runAction Arrive (fst (checkAndAnnounceDirection s p)))) \<and>
         getDistanceBetweenPoints (location (routeSteps s ! currentStepIndex s))
           (location (routeSteps s ! currentStepIndex s)) = Some 0"
proof -
  have ne: "length (routeSteps s) \<noteq> 0" using assms(3) by auto
  have m: "markAnnounced (currentStepIndex s) (routeSteps s) =
             (routeSteps s)[currentStepIndex s :=
                (routeSteps s ! currentStepIndex s)\<lparr>announced := True\<rparr>]"
    using assms(3) by (simp add: markAnnounced_update)
  have 1: "currentStepIndex s + 1 < length (routeSteps s) \<Longrightarrow> ?thesis"
    using assms ne by (simp add: checkAndAnnounceDirection_def Let_def m distance_self)
  have 2: "\<not> currentStepIndex s + 1 < length (routeSteps s) \<Longrightarrow> ?thesis"
    using assms ne by (simp add: checkAndAnnounceDirection_def Let_def m distance_self)
  from 1 2 show ?thesis by blast
qed


theorem announce_within_30_meters_witness:
  "isNavigating lastLeg \<and> voiceEnabled lastLeg \<and>
   currentStepIndex lastLeg < length (routeSteps lastLeg) \<and>
   \<not> announced (routeSteps lastLeg ! currentStepIndex lastLeg) \<and>
   getDistanceBetweenPoints (0, 0) (location (routeSteps lastLeg ! currentStepIndex lastLeg)) = Some 0 \<and>
   checkAndAnnounceDirection lastLeg (0, 0) =
     (lastLegAnnounced, [Now (Speak 0 ''Turn left''), After 2000 Arrive]) \<and>
   isNavigating twoLegs \<and> voiceEnabled twoLegs \<and>
   currentStepIndex twoLegs < length (routeSteps twoLegs) \<and>
   \<not> announced (routeSteps twoLegs ! currentStepIndex twoLegs) \<and>
   getDistanceBetweenPoints (0, 0) (location (routeSteps twoLegs ! currentStepIndex twoLegs)) = Some 0 \<and>
   checkAndAnnounceDirection twoLegs (0, 0) =
     (secondLeg,
      [Now (Speak 0 ''Turn left''), After 3000 (Speak 1 ''In 120 meters, Turn right'')])"
proof -
  have h: "isNavigating lastLeg" "voiceEnabled lastLeg"
    "currentStepIndex lastLeg < length (routeSteps lastLeg)"
    "\<not> announced (routeSteps lastLeg ! currentStepIndex lastLeg)"
    by (simp_all add: lastLeg_def turnLeft_def)
  have d: "getDistanceBetweenPoints (0, 0) (location (routeSteps lastLeg ! currentStepIndex lastLeg)) = Some 0"
    by (simp add: lastLeg_def turnLeft_def distance_self)
  have h2: "isNavigating twoLegs" "voiceEnabled twoLegs"
    "currentStepIndex twoLegs < length (routeSteps twoLegs)"
    "\<not> announced (routeSteps twoLegs ! currentStepIndex twoLegs)"
    by (simp_all add: twoLegs_def turnLeft_def)
  have d2: "getDistanceBetweenPoints (0, 0) (location (routeSteps twoLegs ! currentStepIndex twoLegs)) = Some 0"
    by (simp add: twoLegs_def turnLeft_def distance_self)
  have z: "(0::real) < 30" by simp
  have 1: "checkAndAnnounceDirection lastLeg (0, 0) =
     (lastLegAnnounced, [Now (Speak 0 ''Turn left''), After 2000 Arrive])"
    using announce_within_30_meters [OF h d z]
    by (simp add: lastLeg_def lastLegAnnounced_def turnLeft_def)
  have 2: "checkAndAnnounceDirection twoLegs (0, 0) =
     (secondLeg,
      [Now (Speak 0 ''Turn left''), After 3000 (Speak 1 ''In 120 meters, Turn right'')])"
    using announce_within_30_meters [OF h2 d2 z]
    by (simp add: twoLegs_def secondLeg_def turnLeft_def turnRight_def roundToString_120)
  from h d h2 d2 1 2 show ?thesis by simp
qed

text \<open>
  Claim C5, as stated, leaves the step free to be announced already. On the one-step
  route whose step has just been announced, with navigation still active and the voice
  enabled, an update at distance 0 from the trigger location speaks nothing and changes
  nothing.
\<close>

theorem announced_step_blocks_announcement:
  "isNavigating lastLegAnnounced \<and> voiceEnabled lastLegAnnounced \<and>
   routeSteps lastLegAnnounced \<noteq> [] \<and>
   getDistanceBetweenPoints (0, 0)
     (location (routeSteps lastLegAnnounced ! currentStepIndex lastLegAnnounced)) = Some 0 \<and>
   checkAndAnnounceDirection lastLegAnnounced (0, 0) = (lastLegAnnounced, [])"
  by (simp add: checkAndAnnounceDirection_def lastLegAnnounced_def lastLeg_def turnLeft_def
        distance_self)

subsection \<open>No second announcement\<close>

lemma effects_about:
  "e \<in> set (snd (checkAndAnnounceDirection s p)) \<Longrightarrow>
     currentStepIndex s < length (routeSteps s) \<and>
     \<not> announced (routeSteps s ! currentStepIndex s) \<and>
     (effectStep e = None \<or> effectStep e = Some (currentStepIndex s) \<or>
      effectStep e = Some (currentStepIndex s + 1))"
  by (auto simp: checkAndAnnounceDirection_def Let_def split: if_splits option.splits)

lemma steps_changed:
  assumes "routeSteps (fst (checkAndAnnounceDirection s p)) \<noteq> routeSteps s"
  shows "currentStepIndex s < length (routeSteps s) \<and>
         routeSteps (fst (checkAndAnnounceDirection s p)) =
           markAnnounced (currentStepIndex s) (routeSteps s) \<and>
         (currentStepIndex (fst (checkAndAnnounceDirection s p)) = currentStepIndex s + 1 \<or>
          currentStepIndex (fst (checkAndAnnounceDirection s p)) = currentStepIndex s)"
  using assms
  by (auto simp: checkAndAnnounceDirection_def Let_def split: if_splits option.splits)

lemma length_steps:
  "length (routeSteps (fst (checkAndAnnounceDirection s p))) = length (routeSteps s)"
  by (auto simp: checkAndAnnounceDirection_def Let_def split: if_splits option.splits)

lemma announced_kept:
  "j < length (routeSteps s) \<Longrightarrow> announced (routeSteps s ! j) \<Longrightarrow>
     announced (routeSteps (fst (checkAndAnnounceDirection s p)) ! j)"
  by (auto simp: checkAndAnnounceDirection_def Let_def nth_markAnnounced
           split: if_splits option.splits)

text \<open>
  Claim C6. If a position update has marked step \<open>i\<close> announced (the step was not
  announced before the update and is announced after it), then handling the same
  position again produces no effect, immediate or scheduled, that speaks about step
  \<open>i\<close>, and the step stays announced.
\<close>

theorem announced_step_not_repeated:
  assumes "i < length (routeSteps s)"
    and "\<not> announced (routeSteps s ! i)"
    and "announced (routeSteps (fst (checkAndAnnounceDirection s p)) ! i)"
  shows "(\<forall>e \<in> set (snd (checkAndAnnounceDirection (fst (checkAndAnnounceDirection s p)) p)).
            effectStep e \<noteq> Some i) \<and>
         announced (routeSteps (fst (checkAndAnnounceDirection
                      (fst (checkAndAnnounceDirection s p)) p)) ! i)"
proof -
  let ?s1 = "fst (checkAndAnnounceDirection s p)"
  have len: "length (routeSteps ?s1) = length (routeSteps s)" by (rule length_steps)
  have "routeSteps ?s1 \<noteq> routeSteps s" using assms(2,3) by auto
  from steps_changed [OF this]
  have m: "routeSteps ?s1 = markAnnounced (currentStepIndex s) (routeSteps s)"
    and ix: "currentStepIndex ?s1 = currentStepIndex s + 1 \<or> currentStepIndex ?s1 = currentStepIndex s"
    by simp_all
  have i: "i = currentStepIndex s"
    using assms m by (auto simp: nth_markAnnounced split: if_splits)
  have "effectStep e \<noteq> Some i" if e: "e \<in> set (snd (checkAndAnnounceDirection ?s1 p))" for e
  proof -
    from effects_about [OF e]
    have a: "\<not> announced (routeSteps ?s1 ! currentStepIndex ?s1)"
      and b: "effectStep e = None \<or> effectStep e = Some (currentStepIndex ?s1) \<or>
              effectStep e = Some (currentStepIndex ?s1 + 1)"
      by simp_all
    from a assms(3) i have "currentStepIndex ?s1 \<noteq> currentStepIndex s" by auto
    with ix have "currentStepIndex ?s1 = i + 1" using i by simp
    with b show ?thesis by auto
  qed
  moreover have "announced (routeSteps (fst (checkAndAnnounceDirection ?s1 p)) ! i)"
    using announced_kept [of i ?s1 p] assms(1,3) len by simp
  ultimately show ?thesis by blast
qed

theorem announced_step_not_repeated_witness:
  "0 < length (routeSteps lastLeg) \<and> \<not> announced (routeSteps lastLeg ! 0) \<and>
   announced (routeSteps (fst (checkAndAnnounceDirection lastLeg (0, 0))) ! 0) \<and>
   snd (checkAndAnnounceDirection (fst (checkAndAnnounceDirection lastLeg (0, 0))) (0, 0)) = [] \<and>
   0 < length (routeSteps twoLegs) \<and> \<not> announced (routeSteps twoLegs ! 0) \<and>
   announced (routeSteps (fst (checkAndAnnounceDirection twoLegs (0, 0))) ! 0) \<and>
   snd (checkAndAnnounceDirection (fst (checkAndAnnounceDirection twoLegs (0, 0))) (0, 0)) =
     [Now (Speak 1 ''In 40 meters, Turn right'')] \<and>
   effectStep (Now (Speak 1 ''In 40 meters, Turn right'')) \<noteq> Some 0"
proof -
  have c1: "checkAndAnnounceDirection lastLeg (0, 0) =
              (lastLegAnnounced, [Now (Speak 0 ''Turn left''), After 2000 Arrive])"
    by (simp add: checkAndAnnounceDirection_def lastLeg_def lastLegAnnounced_def turnLeft_def
          distance_self markAnnounced_update)
  have c2: "checkAndAnnounceDirection lastLegAnnounced (0, 0) = (lastLegAnnounced, [])"
    by (simp add: checkAndAnnounceDirection_def lastLegAnnounced_def lastLeg_def turnLeft_def)
  have h1: "0 < length (routeSteps lastLeg)" and h2: "\<not> announced (routeSteps lastLeg ! 0)"
    by (simp_all add: lastLeg_def turnLeft_def)
  have h3: "announced (routeSteps (fst (checkAndAnnounceDirection lastLeg (0, 0))) ! 0)"
    by (simp add: c1) (simp add: lastLegAnnounced_def lastLeg_def)
  have t1: "fst (checkAndAnnounceDirection twoLegs (0, 0)) = secondLeg"
    by (simp add: checkAndAnnounceDirection_def twoLegs_def secondLeg_def turnLeft_def
          distance_self markAnnounced_update)
  have t2: "checkAndAnnounceDirection secondLeg (0, 0) =
              (secondLeg, [Now (Speak 1 ''In 40 meters, Turn right'')])"
    by (simp add: checkAndAnnounceDirection_def twoLegs_def secondLeg_def turnRight_def
          distance_to_fortyMetersNorth roundToString_40)
  have g1: "0 < length (routeSteps twoLegs)" and g2: "\<not> announced (routeSteps twoLegs ! 0)"
    by (simp_all add: twoLegs_def turnLeft_def)
  have g3: "announced (routeSteps (fst (checkAndAnnounceDirection twoLegs (0, 0))) ! 0)"
    by (simp add: t1) (simp add: secondLeg_def twoLegs_def)
  from announced_step_not_repeated [OF h1 h2 h3] announced_step_not_repeated [OF g1 g2 g3]
    h1 h2 h3 g1 g2 g3 c1 c2 t1 t2
  show ?thesis by simp
qed

subsection \<open>Between 30 and 50 meters\<close>

text \<open>
  Claim C7, as amended. While navigation is active and the voice is enabled, with the
  cursor on a step that has not been announced yet, a position update whose distance
  \<open>d\<close> to that step's trigger location satisfies 30 \<open>\<le>\<close> d < 50 speaks the
  pre-announcement made of the rounded distance and the instruction and changes no
  state; handling the same position again therefore gives the same pre-announcement.
\<close>

theorem preannounce_between_30_and_50:
  assumes "isNavigating s" and "voiceEnabled s"
    and "currentStepIndex s < length (routeSteps s)"
    and "\<not> announced (routeSteps s ! currentStepIndex s)"
    and "getDistanceBetweenPoints p (location (routeSteps s ! currentStepIndex s)) = Some d"
    and "30 \<le> d" and "d < 50"
  shows "checkAndAnnounceDirection s p =
           (s, [Now (Speak (currentStepIndex s)
                  (''In '' @ roundToString d @ '' meters, ''
                     @ instruction (routeSteps s ! currentStepIndex s)))]) \<and>
         checkAndAnnounceDirection (fst (checkAndAnnounceDirection s p)) p =
           checkAndAnnounceDirection s p"
proof -
  have ne: "length (routeSteps s) \<noteq> 0" using assms(3) by auto
  have "checkAndAnnounceDirection s p =
           (s, [Now (Speak (currentStepIndex s)
                  (''In '' @ roundToString d @ '' meters, ''
                     @ instruction (routeSteps s ! currentStepIndex s)))])"
    using assms ne by (simp add: checkAndAnnounceDirection_def Let_def)
  then show ?thesis by simp
qed

theorem preannounce_between_30_and_50_witness:
  "isNavigating lastLeg \<and> voiceEnabled lastLeg \<and>
   currentStepIndex lastLeg < length (routeSteps lastLeg) \<and>
   \<not> announced (routeSteps lastLeg ! currentStepIndex lastLeg) \<and>
   getDistanceBetweenPoints fortyMetersNorth
     (location (routeSteps lastLeg ! currentStepIndex lastLeg)) = Some 40 \<and>
   (30::real) \<le> 40 \<and> (40::real) < 50 \<and>
   checkAndAnnounceDirection lastLeg fortyMetersNorth =
     (lastLeg, [Now (Speak 0 ''In 40 meters, Turn left'')])"
proof -
  have h: "isNavigating lastLeg" "voiceEnabled lastLeg"
    "currentStepIndex lastLeg < length (routeSteps lastLeg)"
    "\<not> announced (routeSteps lastLeg ! currentStepIndex lastLeg)"
    by (simp_all add: lastLeg_def turnLeft_def)
  have d: "getDistanceBetweenPoints fortyMetersNorth
             (location (routeSteps lastLeg ! currentStepIndex lastLeg)) = Some 40"
    by (simp add: lastLeg_def turnLeft_def distance_fortyMetersNorth)
  have b: "(30::real) \<le> 40" "(40::real) < 50" by simp_all
  from preannounce_between_30_and_50 [OF h d b] h d show ?thesis
    by (simp add: roundToString_40) (simp add: lastLeg_def turnLeft_def)
qed

text \<open>
  Claim C7, as stated, does not ask for the voice to be enabled. With the voice switched
  off, a position 40 meters from the trigger location of the unannounced current step
  speaks nothing.
\<close>

theorem muted_no_preannouncement:
  "\<not> announced (routeSteps muted ! currentStepIndex muted) \<and>
   getDistanceBetweenPoints fortyMetersNorth
     (location (routeSteps muted ! currentStepIndex muted)) = Some 40 \<and>
   (30::real) \<le> 40 \<and> (40::real) < 50 \<and>
   checkAndAnnounceDirection muted fortyMetersNorth = (muted, [])"
proof -
  have "getDistanceBetweenPoints fortyMetersNorth
          (location (routeSteps muted ! currentStepIndex muted)) = Some 40"
    by (simp add: muted_def lastLeg_def turnLeft_def distance_fortyMetersNorth)
  moreover have "\<not> announced (routeSteps muted ! currentStepIndex muted)"
    by (simp add: muted_def lastLeg_def turnLeft_def)
  moreover have "checkAndAnnounceDirection muted fortyMetersNorth = (muted, [])"
    by (simp add: checkAndAnnounceDirection_def muted_def)
  ultimately show ?thesis by simp
qed

section \<open>Properties of the transcript parser\<close>

text \<open>
  The example of the usage hint: the title and the time of
  \<open>remind me to take medicine at 8 am\<close>.
\<close>

lemma take_medicine_example:
  "parseTitle ''remind me to take medicine at 8 am'' = ''Take medicine'' \<and>
   timeString ''remind me to take medicine at 8 am'' = ''08:00''"
  by code_simp

text \<open>
  A time with minutes and a period is brought to the 24-hour clock; noon with a bare
  hour needs no change and comes out right.
\<close>

lemma period_examples:
  "timeString ''8:30 pm'' = ''20:30'' \<and> timeString ''12:05 am'' = ''00:05'' \<and>
   timeString ''12 pm'' = ''12:00''"
  by code_simp

text \<open>
  Claim C1. A time with a period is to be brought to the 24-hour clock: \<open>12 am\<close> is
  hour 0 and a \<open>pm\<close> hour below 12 is raised by 12. For a bare hour with a period
  the second pattern matches, whose period is its second group; the parser reads the
  period from the third group, finds none and leaves the hour as it is: \<open>12 am\<close>
  comes out as \<open>12:00\<close> and \<open>3 pm\<close> as \<open>03:00\<close>.
\<close>

theorem bare_hour_period_ignored:
  "timeString ''12 am'' = ''12:00'' \<and>
   timeString ''remind me to call mom at 3 pm'' = ''03:00''"
  by code_simp

text \<open>
  Claim C8. The title is to be the transcript without the command words and without the
  time and reminder phrases. In the clean-up pattern the alternative for a bare number
  stands before the alternative for \<open>N minutes before\<close>, so of that phrase only the
  number is removed: the lead is read as 5, and \<open>minutes before\<close> stays in the title.
\<close>

theorem reminder_phrase_left_in_title:
  "parseReminder ''remind me to call mom at 8 am 5 minutes before'' = Some 5 \<and>
   parseTitle ''remind me to call mom at 8 am 5 minutes before'' = ''Call mom  minutes before''"
  by code_simp

text \<open>
  Claim C10. The digits matched for hours and minutes are not checked against a range:
  there is a transcript for which the parser finds a time with hours 19 and minutes
  99, a minute beyond 59, and returns the time string \<open>19:99\<close>.
\<close>

theorem minutes_not_range_checked:
  "\<exists>transcript h m. parseTime transcript = (Some h, m, True) \<and> h = 19 \<and> m = 99 \<and>
     59 < m \<and> timeString transcript = ''19:99''"
proof -
  have "parseTime ''set reminder for the dentist at 19:99'' = (Some 19, 99, True)"
    by code_simp
  moreover have "timeString ''set reminder for the dentist at 19:99'' = ''19:99''"
    by code_simp
  ultimately show ?thesis by auto
qed

end
